theory Spec2Isabelle
  imports Main "HOL-Library.Char_ord"
begin

section \<open>The lexer (lex.cpp)\<close>

text \<open>
  The header \<^verbatim>\<open>lex.hpp\<close> is not among the sources. It declares the type of the
  global \<^verbatim>\<open>token\<close> and the two class constants \<^verbatim>\<open>DIGIT\<close> and \<^verbatim>\<open>EoF\<close>.
  The token is a record of an integer class and the raw character; the two constants
  are parameters \<open>DIGIT\<close> and \<open>EoF\<close> of every function that reads them, so that
  nothing below depends on a value the sources do not give.
\<close>

record tokenType =
  classType :: int
  repr :: char

text \<open>
  The state the lexer and the parser share: the global \<^verbatim>\<open>token\<close> and what is left
  to read of the standard input.
\<close>

record lexer =
  token :: tokenType
  stdin :: "char list"

text \<open>
  \<^verbatim>\<open>getchar()\<close>: the next character as a non-negative integer, or the negative
  \<^verbatim>\<open>EOF\<close> when the input is exhausted, where it stays.
\<close>

definition getchar :: "char list \<Rightarrow> int \<times> char list" where
  "getchar inp = (case inp of [] \<Rightarrow> (- 1, []) | c # cs \<Rightarrow> (of_char c, cs))"

definition isWhitespace :: "int \<Rightarrow> bool" where
  "isWhitespace ch \<longleftrightarrow>
     ch = of_char (CHR 0x0A) \<or> ch = of_char (CHR '' '') \<or> ch = of_char (CHR 0x09)"

text \<open>
  \<^verbatim>\<open>getNextToken\<close>. The \<^verbatim>\<open>do ... while (isWhitespace(ch))\<close> loop is the
  recursive call: nothing precedes the loop in the function, so going round the
  loop is running the function again on the shorter input.
\<close>

function getNextToken :: "int \<Rightarrow> int \<Rightarrow> lexer \<Rightarrow> lexer" where
  "getNextToken DIGIT EoF st =
     (let (ch, inp) = getchar (stdin st) in
      if ch < 0 then
        st\<lparr>token := \<lparr>classType = EoF, repr = CHR ''#''\<rparr>, stdin := inp\<rparr>
      else if isWhitespace ch then
        getNextToken DIGIT EoF (st\<lparr>stdin := inp\<rparr>)
      else
        st\<lparr>token :=
             \<lparr>classType =
                (if of_char (CHR ''0'') \<le> ch \<and> ch \<le> of_char (CHR ''9'') then DIGIT else ch),
              repr = char_of ch\<rparr>,
           stdin := inp\<rparr>)"
  by pat_completeness auto
termination
  by (relation "measure (\<lambda>(DIGIT, EoF, st). length (stdin st))")
     (auto simp: getchar_def split: list.splits)

declare getNextToken.simps [simp del]

text \<open>
  The global \<^verbatim>\<open>token\<close> is zero-initialised when the program starts; \<open>startup inp\<close>
  is the state before the first call of \<^verbatim>\<open>getNextToken\<close> on the input \<open>inp\<close>.
\<close>

definition startup :: "char list \<Rightarrow> lexer" where
  "startup inp = \<lparr>token = \<lparr>classType = 0, repr = CHR 0x00\<rparr>, stdin = inp\<rparr>"

section \<open>The parser (parser.hpp, parser.cpp)\<close>

text \<open>
  \<^verbatim>\<open>struct Expression\<close> is a tagged node: \<^verbatim>\<open>type\<close> is \<^verbatim>\<open>'D'\<close> with
  \<^verbatim>\<open>value\<close> set, or \<^verbatim>\<open>'P'\<close> with \<^verbatim>\<open>left\<close>, \<^verbatim>\<open>op\<close> and \<^verbatim>\<open>right\<close> set.
  \<^verbatim>\<open>new Expression\<close> leaves the other fields indeterminate, so a node carries the
  fields that the parser wrote. \<^verbatim>\<open>Operator\<close> is \<^verbatim>\<open>int\<close>.
\<close>

type_synonym Operator = int

datatype Expression =
  D (val: int)
| P (left: Expression) (op: Operator) (right: Expression)

text \<open>
  \<^verbatim>\<open>parseOperator\<close>: \<open>Some oper\<close> is \<^verbatim>\<open>return 1\<close> with \<^verbatim>\<open>*op\<close> written,
  \<open>None\<close> is \<^verbatim>\<open>return 0\<close>.
\<close>

definition parseOperator :: "int \<Rightarrow> int \<Rightarrow> lexer \<Rightarrow> Operator option \<times> lexer" where
  "parseOperator DIGIT EoF st =
     (if classType (token st) = of_char (CHR ''+'') then
        (Some (of_char (CHR ''+'')), getNextToken DIGIT EoF st)
      else if classType (token st) = of_char (CHR ''*'') then
        (Some (of_char (CHR ''*'')), getNextToken DIGIT EoF st)
      else (None, st))"

text \<open>
  \<^verbatim>\<open>parseExpression\<close>. A result \<open>Inl msg\<close> is the call \<^verbatim>\<open>Error(msg)\<close>, which
  does not return (\<^verbatim>\<open>error.hpp\<close> is not among the sources; the parse ends there
  with the message). \<open>Inr (Some e, st')\<close> is \<^verbatim>\<open>return 1\<close> with \<^verbatim>\<open>*expr_p\<close> the
  node \<open>e\<close>; \<open>Inr (None, st')\<close> is \<^verbatim>\<open>return 0\<close>, the node freed.

  The first condition of the source is the assignment
  \<^verbatim>\<open>token.classType = DIGIT\<close>: it stores \<open>DIGIT\<close> in the token and is true when
  the stored value is not zero. \<open>st0\<close> is the state after it. The promotion of the
  character \<^verbatim>\<open>token.repr\<close> to \<^verbatim>\<open>int\<close> is its code.

  The recursive calls stand in the second branch, which runs when the class just stored
  is zero and also the code of \<^verbatim>\<open>'('\<close>. No state satisfies both, so no call
  recurses, and that is the termination argument.
\<close>

function parseExpression ::
  "int \<Rightarrow> int \<Rightarrow> lexer \<Rightarrow> string + (Expression option \<times> lexer)" where
  "parseExpression DIGIT EoF st =
     (let st0 = st\<lparr>token := (token st)\<lparr>classType := DIGIT\<rparr>\<rparr> in
      if classType (token st0) \<noteq> 0 then
        Inr (Some (D (of_char (repr (token st0)) - of_char (CHR ''0''))),
             getNextToken DIGIT EoF st0)
      else if classType (token st0) = of_char (CHR ''('') then
        (let st1 = getNextToken DIGIT EoF st0 in
         case parseExpression DIGIT EoF st1 of
           Inl msg \<Rightarrow> Inl msg
         | Inr (None, st2) \<Rightarrow> Inl ''Missing expression''
         | Inr (Some l, st2) \<Rightarrow>
             (case parseOperator DIGIT EoF st2 of
                (None, st3) \<Rightarrow> Inl ''Missing operator''
              | (Some oper, st3) \<Rightarrow>
                  (case parseExpression DIGIT EoF st3 of
                     Inl msg \<Rightarrow> Inl msg
                   | Inr (None, st4) \<Rightarrow> Inl ''Missing expression''
                   | Inr (Some r, st4) \<Rightarrow>
                       if classType (token st4) \<noteq> of_char (CHR '')'') then
                         Inl ''Missing right paranthesis''
                       else Inr (Some (P l oper r), getNextToken DIGIT EoF st4))))
      else Inr (None, st0))"
  by pat_completeness auto
termination
  by (relation "{}") simp_all

declare parseExpression.simps [simp del]

section \<open>Notions of the specification\<close>

text \<open>
  The whitespace set of the specification: space, tab, newline.
\<close>

definition whitespace :: "char set" where
  "whitespace = {CHR '' '', CHR 0x09, CHR 0x0A}"

text \<open>
  The tokens that \<open>n\<close> calls of \<^verbatim>\<open>getNextToken\<close> in a row leave in the global
  \<^verbatim>\<open>token\<close>, in order.
\<close>

fun lex_run :: "int \<Rightarrow> int \<Rightarrow> nat \<Rightarrow> lexer \<Rightarrow> tokenType list" where
  "lex_run DIGIT EoF 0 st = []"
| "lex_run DIGIT EoF (Suc n) st =
     (let st' = getNextToken DIGIT EoF st in token st' # lex_run DIGIT EoF n st')"

section \<open>Facts about the lexer\<close>

lemma of_char_nonneg: "\<not> (of_char c :: int) < 0"
  by (simp add: of_nat_of_char [symmetric, where ?'a = int])

lemma of_char_le_255: "(of_char c :: int) \<le> 255"
proof -
  have "(of_char c :: nat) < 256" by simp
  then have "int (of_char c) < 256" by simp
  then show ?thesis by (simp add: of_nat_of_char)
qed

lemma getNextToken_Nil:
  "stdin st = [] \<Longrightarrow>
   getNextToken DIGIT EoF st = st\<lparr>token := \<lparr>classType = EoF, repr = CHR ''#''\<rparr>, stdin := []\<rparr>"
  by (subst getNextToken.simps) (simp add: getchar_def)

lemma getNextToken_Cons:
  "stdin st = c # cs \<Longrightarrow>
   getNextToken DIGIT EoF st =
     (if isWhitespace (of_char c) then getNextToken DIGIT EoF (st\<lparr>stdin := cs\<rparr>)
      else st\<lparr>token :=
             \<lparr>classType =
                (if of_char (CHR ''0'') \<le> (of_char c :: int) \<and> (of_char c :: int) \<le> of_char (CHR ''9'')
                 then DIGIT else of_char c),
              repr = c\<rparr>,
           stdin := cs\<rparr>)"
  by (subst getNextToken.simps) (simp add: getchar_def of_char_nonneg)

lemma isWhitespace_of_char:
  "isWhitespace (of_char c) \<longleftrightarrow> c \<in> whitespace"
  unfolding isWhitespace_def whitespace_def by (simp only: of_char_eq_iff) auto

lemma digit_of_char:
  "of_char (CHR ''0'') \<le> (of_char c :: int) \<and> (of_char c :: int) \<le> of_char (CHR ''9'') \<longleftrightarrow> CHR ''0'' \<le> c \<and> c \<le> CHR ''9''"
  unfolding less_eq_char_def
  by (simp only: of_nat_of_char [symmetric, where ?'a = int] of_nat_le_iff)

lemma getNextToken_skip:
  "stdin st = inp \<Longrightarrow>
   getNextToken DIGIT EoF st =
     (case dropWhile (\<lambda>c. c \<in> whitespace) inp of
        [] \<Rightarrow> st\<lparr>token := \<lparr>classType = EoF, repr = CHR ''#''\<rparr>, stdin := []\<rparr>
      | c # rest \<Rightarrow>
          st\<lparr>token :=
               \<lparr>classType = (if CHR ''0'' \<le> c \<and> c \<le> CHR ''9'' then DIGIT else of_char c),
                repr = c\<rparr>,
             stdin := rest\<rparr>)"
proof (induction inp arbitrary: st)
  case Nil
  then show ?case by (simp add: getNextToken_Nil)
next
  case (Cons c cs)
  show ?case
  proof (cases "c \<in> whitespace")
    case True
    have "getNextToken DIGIT EoF st = getNextToken DIGIT EoF (st\<lparr>stdin := cs\<rparr>)"
      using Cons.prems True by (simp add: getNextToken_Cons isWhitespace_of_char)
    also have "\<dots> = (case dropWhile (\<lambda>c. c \<in> whitespace) cs of
        [] \<Rightarrow> (st\<lparr>stdin := cs\<rparr>)\<lparr>token := \<lparr>classType = EoF, repr = CHR ''#''\<rparr>, stdin := []\<rparr>
      | c # rest \<Rightarrow>
          (st\<lparr>stdin := cs\<rparr>)\<lparr>token :=
               \<lparr>classType = (if CHR ''0'' \<le> c \<and> c \<le> CHR ''9'' then DIGIT else of_char c),
                repr = c\<rparr>,
             stdin := rest\<rparr>)"
      by (rule Cons.IH) simp
    finally show ?thesis
      using True
      by (cases "dropWhile (\<lambda>c. c \<in> whitespace) cs")
         (simp_all del: dropWhile_eq_Nil_conv)
  next
    case False
    then show ?thesis
      using Cons.prems
      by (simp only: getNextToken_Cons [OF Cons.prems] isWhitespace_of_char digit_of_char
            dropWhile.simps if_False list.case)
  qed
qed

lemma getNextToken_token:
  "getNextToken DIGIT EoF (st\<lparr>token := t\<rparr>) = getNextToken DIGIT EoF st"
  by (cases "dropWhile (\<lambda>c. c \<in> whitespace) (stdin st)")
     (simp_all add: getNextToken_skip [where inp = "stdin st"] del: dropWhile_eq_Nil_conv)

lemma getNextToken_same_stdin:
  "stdin st1 = stdin st2 \<Longrightarrow>
   token (getNextToken DIGIT EoF st1) = token (getNextToken DIGIT EoF st2) \<and>
   stdin (getNextToken DIGIT EoF st1) = stdin (getNextToken DIGIT EoF st2)"
  by (cases "dropWhile (\<lambda>c. c \<in> whitespace) (stdin st2)")
     (simp_all add: getNextToken_skip [where inp = "stdin st2"] del: dropWhile_eq_Nil_conv)

lemma getNextToken_EoF_exhausted:
  assumes "EoF \<noteq> DIGIT" and "EoF < 0 \<or> 255 < EoF"
    and "classType (token (getNextToken DIGIT EoF st)) = EoF"
  shows "getNextToken DIGIT EoF st =
           st\<lparr>token := \<lparr>classType = EoF, repr = CHR ''#''\<rparr>, stdin := []\<rparr>"
proof (cases "dropWhile (\<lambda>c. c \<in> whitespace) (stdin st)")
  case Nil
  then show ?thesis
    by (simp add: getNextToken_skip [where inp = "stdin st"] del: dropWhile_eq_Nil_conv)
next
  case (Cons c rest)
  have "classType (token (getNextToken DIGIT EoF st)) =
          (if CHR ''0'' \<le> c \<and> c \<le> CHR ''9'' then DIGIT else of_char c)"
    using Cons by (simp add: getNextToken_skip [where inp = "stdin st"])
  moreover have "of_char c \<noteq> EoF"
    using assms(2) of_char_nonneg [of c] of_char_le_255 [of c] by auto
  ultimately have False
    using assms(1,3) by (auto split: if_splits)
  then show ?thesis ..
qed

lemma funpow_fixed: "f x = x \<Longrightarrow> (f ^^ n) x = x"
  by (induction n) simp_all

section \<open>Facts about the parser\<close>

lemma getNextToken_startup_Cons:
  "\<not> isWhitespace (of_char c) \<Longrightarrow>
   getNextToken DIGIT EoF (startup (c # cs)) =
     \<lparr>token =
        \<lparr>classType =
           (if of_char (CHR ''0'') \<le> (of_char c :: int) \<and> (of_char c :: int) \<le> of_char (CHR ''9'')
            then DIGIT else of_char c),
         repr = c\<rparr>,
      stdin = cs\<rparr>"
  by (simp add: getNextToken_Cons [where c = c and cs = cs] startup_def)

lemma getNextToken_startup_Nil:
  "getNextToken DIGIT EoF (startup []) =
     \<lparr>token = \<lparr>classType = EoF, repr = CHR ''#''\<rparr>, stdin = []\<rparr>"
  by (simp add: getNextToken_Nil startup_def)

text \<open>
  The first condition of \<^verbatim>\<open>parseExpression\<close> decides the call: with a non-zero
  \<open>DIGIT\<close> the first branch runs, with \<open>DIGIT\<close> zero the stored class is zero,
  which is not the code of \<^verbatim>\<open>'('\<close>, and the call returns 0.
\<close>

lemma parseExpression_assign:
  "DIGIT \<noteq> 0 \<Longrightarrow>
   parseExpression DIGIT EoF st =
     Inr (Some (D (of_char (repr (token st)) - of_char (CHR ''0''))), getNextToken DIGIT EoF st)"
  by (subst parseExpression.simps) (simp add: Let_def getNextToken_token)

lemma parseExpression_zero:
  "parseExpression 0 EoF st = Inr (None, st\<lparr>token := (token st)\<lparr>classType := 0\<rparr>\<rparr>)"
  by (subst parseExpression.simps) (simp add: Let_def)

section \<open>The claims\<close>

text \<open>
  Claim C1. The claim: the Digit branch of \<^verbatim>\<open>parseExpression\<close> is taken exactly when
  the class of the current token is Digit. In the code the condition of that branch is
  the assignment \<^verbatim>\<open>token.classType = DIGIT\<close>, so for a non-zero \<open>DIGIT\<close> the
  branch is taken also when the class of the current token is not \<open>DIGIT\<close>: the call
  returns 1 with a \<^verbatim>\<open>'D'\<close> node of value \<^verbatim>\<open>repr - '0'\<close> and the lexer advanced
  by one token. The code does not do what the claim says.
\<close>

theorem parseExpression_digit_branch_any_class:
  assumes "DIGIT \<noteq> 0" and "classType (token st) \<noteq> DIGIT"
  shows "parseExpression DIGIT EoF st =
           Inr (Some (D (of_char (repr (token st)) - of_char (CHR ''0''))),
                getNextToken DIGIT EoF st)"
  using assms(1) by (rule parseExpression_assign)

theorem parseExpression_digit_branch_any_class_witness:
  "(257::int) \<noteq> 0 \<and>
   classType (token \<lparr>token = \<lparr>classType = 40, repr = CHR ''(''\<rparr>, stdin = ''2+3)''\<rparr>) \<noteq> 257 \<and>
   parseExpression 257 256 \<lparr>token = \<lparr>classType = 40, repr = CHR ''(''\<rparr>, stdin = ''2+3)''\<rparr> =
     Inr (Some (D (- 8)), \<lparr>token = \<lparr>classType = 257, repr = CHR ''2''\<rparr>, stdin = ''+3)''\<rparr>)"
  using parseExpression_digit_branch_any_class
          [of 257 "\<lparr>token = \<lparr>classType = 40, repr = CHR ''(''\<rparr>, stdin = ''2+3)''\<rparr>" 256]
  by (simp add: getNextToken_Cons isWhitespace_def)

text \<open>
  Claim C2. Whatever the current token is (any class, end of input included) and
  whatever is left of the input, \<^verbatim>\<open>parseExpression\<close> returns success with a node:
  it never returns the no-match result 0 and never ends in a fatal error. \<open>DIGIT\<close>
  is a constant of the absent \<^verbatim>\<open>lex.hpp\<close>; the assignment that serves as the first
  condition is true when it is not zero.
\<close>

theorem parseExpression_always_succeeds:
  "DIGIT \<noteq> 0 \<Longrightarrow> \<exists>e st'. parseExpression DIGIT EoF st = Inr (Some e, st')"
  by (simp add: parseExpression_assign)

theorem parseExpression_always_succeeds_witness:
  "(257::int) \<noteq> 0 \<and>
   (\<exists>e st'. parseExpression 257 256 \<lparr>token = \<lparr>classType = 256, repr = CHR ''#''\<rparr>, stdin = []\<rparr> =
      Inr (Some e, st'))"
  using parseExpression_always_succeeds
          [of 257 256 "\<lparr>token = \<lparr>classType = 256, repr = CHR ''#''\<rparr>, stdin = []\<rparr>"]
  by simp

text \<open>
  Claim C3. The claim: the input \<^verbatim>\<open>(2+3)\<close> parses to the parenthesized node of
  \<open>D 2\<close>, \<^verbatim>\<open>'+'\<close> and \<open>D 3\<close>. The code, started on that input with the first
  token read, returns the single node \<open>D (- 8)\<close>, which is \<^verbatim>\<open>'(' - '0'\<close>, and
  has consumed only the opening parenthesis.
\<close>

theorem parseExpression_paren_input:
  "DIGIT \<noteq> 0 \<Longrightarrow>
   parseExpression DIGIT EoF (getNextToken DIGIT EoF (startup ''(2+3)'')) =
     Inr (Some (D (- 8)), \<lparr>token = \<lparr>classType = DIGIT, repr = CHR ''2''\<rparr>, stdin = ''+3)''\<rparr>)"
  by (simp add: parseExpression_assign getNextToken_startup_Cons getNextToken_Cons
        isWhitespace_def)

theorem parseExpression_paren_input_witness:
  "(257::int) \<noteq> 0 \<and>
   parseExpression 257 256 (getNextToken 257 256 (startup ''(2+3)'')) =
     Inr (Some (D (- 8)), \<lparr>token = \<lparr>classType = 257, repr = CHR ''2''\<rparr>, stdin = ''+3)''\<rparr>)"
  using parseExpression_paren_input [of 257 256] by simp

text \<open>
  Claim C4. The claim: a current token that is neither a digit nor an opening
  parenthesis gives the no-match result, in particular on the empty input. The code, on
  the empty input (current token of class \<open>EoF\<close>), returns success with the node
  \<open>D (- 13)\<close>, which is \<^verbatim>\<open>'#' - '0'\<close>.
\<close>

theorem parseExpression_empty_input:
  "DIGIT \<noteq> 0 \<Longrightarrow>
   parseExpression DIGIT EoF (getNextToken DIGIT EoF (startup '''')) =
     Inr (Some (D (- 13)), \<lparr>token = \<lparr>classType = EoF, repr = CHR ''#''\<rparr>, stdin = []\<rparr>)"
  by (simp add: parseExpression_assign getNextToken_startup_Nil getNextToken_Nil)

theorem parseExpression_empty_input_witness:
  "(257::int) \<noteq> 0 \<and>
   parseExpression 257 256 (getNextToken 257 256 (startup '''')) =
     Inr (Some (D (- 13)), \<lparr>token = \<lparr>classType = 256, repr = CHR ''#''\<rparr>, stdin = []\<rparr>)"
  using parseExpression_empty_input [of 257 256] by simp

text \<open>
  Claim C5. The claim: after an opening parenthesis, a missing expression, operator or
  closing parenthesis is a fatal error with its message, and no tree is returned. The
  code, on each of the inputs \<^verbatim>\<open>(3+)\<close>, \<^verbatim>\<open>(3 4)\<close> and \<^verbatim>\<open>(3+4\<close>, returns
  success with the node \<open>D (- 8)\<close> and raises no error.
\<close>

theorem parseExpression_missing_pieces:
  "DIGIT \<noteq> 0 \<Longrightarrow>
   parseExpression DIGIT EoF (getNextToken DIGIT EoF (startup ''(3+)'')) =
     Inr (Some (D (- 8)), \<lparr>token = \<lparr>classType = DIGIT, repr = CHR ''3''\<rparr>, stdin = ''+)''\<rparr>) \<and>
   parseExpression DIGIT EoF (getNextToken DIGIT EoF (startup ''(3 4)'')) =
     Inr (Some (D (- 8)), \<lparr>token = \<lparr>classType = DIGIT, repr = CHR ''3''\<rparr>, stdin = '' 4)''\<rparr>) \<and>
   parseExpression DIGIT EoF (getNextToken DIGIT EoF (startup ''(3+4'')) =
     Inr (Some (D (- 8)), \<lparr>token = \<lparr>classType = DIGIT, repr = CHR ''3''\<rparr>, stdin = ''+4''\<rparr>)"
  by (simp add: parseExpression_assign getNextToken_startup_Cons getNextToken_Cons
        isWhitespace_def)

theorem parseExpression_missing_pieces_witness:
  "(257::int) \<noteq> 0 \<and>
   parseExpression 257 256 (getNextToken 257 256 (startup ''(3+)'')) =
     Inr (Some (D (- 8)), \<lparr>token = \<lparr>classType = 257, repr = CHR ''3''\<rparr>, stdin = ''+)''\<rparr>) \<and>
   parseExpression 257 256 (getNextToken 257 256 (startup ''(3 4)'')) =
     Inr (Some (D (- 8)), \<lparr>token = \<lparr>classType = 257, repr = CHR ''3''\<rparr>, stdin = '' 4)''\<rparr>) \<and>
   parseExpression 257 256 (getNextToken 257 256 (startup ''(3+4'')) =
     Inr (Some (D (- 8)), \<lparr>token = \<lparr>classType = 257, repr = CHR ''3''\<rparr>, stdin = ''+4''\<rparr>)"
  using parseExpression_missing_pieces [of 257 256] by simp

text \<open>
  Claim C6. One call of \<^verbatim>\<open>getNextToken\<close> skips the leading characters of the input
  that are in the whitespace set (space, tab, newline). If nothing is left, the token
  gets the class \<open>EoF\<close> and the character \<^verbatim>\<open>'#'\<close>. Otherwise the first character
  \<open>c\<close> left is consumed and becomes the token's \<open>repr\<close>; its class is \<open>DIGIT\<close>
  when \<open>c\<close> is one of \<^verbatim>\<open>'0'\<close> to \<^verbatim>\<open>'9'\<close>, and the character code of \<open>c\<close>
  itself otherwise.
\<close>

theorem getNextToken_classifies:
  "getNextToken DIGIT EoF st =
     (case dropWhile (\<lambda>c. c \<in> whitespace) (stdin st) of
        [] \<Rightarrow> st\<lparr>token := \<lparr>classType = EoF, repr = CHR ''#''\<rparr>, stdin := []\<rparr>
      | c # rest \<Rightarrow>
          st\<lparr>token :=
               \<lparr>classType = (if CHR ''0'' \<le> c \<and> c \<le> CHR ''9'' then DIGIT else of_char c),
                repr = c\<rparr>,
             stdin := rest\<rparr>)"
  by (rule getNextToken_skip) (rule refl)

text \<open>
  Claim C7. \<^verbatim>\<open>parseOperator\<close> succeeds exactly when the class of the current token
  is \<^verbatim>\<open>'+'\<close> or \<^verbatim>\<open>'*'\<close>; it then returns that operator and the lexer has
  advanced by one call of \<^verbatim>\<open>getNextToken\<close>. For every other class it returns no
  operator and the state (current token and input position) is the one it was given.
\<close>

theorem parseOperator_frame:
  "parseOperator DIGIT EoF st =
     (if classType (token st) = of_char (CHR ''+'') \<or> classType (token st) = of_char (CHR ''*'')
      then (Some (classType (token st)), getNextToken DIGIT EoF st)
      else (None, st))"
  by (simp add: parseOperator_def)

text \<open>
  Claim C8. The claim: the value of every \<^verbatim>\<open>'D'\<close> node that a successful
  \<^verbatim>\<open>parseExpression\<close> returns lies between 0 and 9. The code, on the input
  \<^verbatim>\<open>+\<close>, returns success with a \<^verbatim>\<open>'D'\<close> node of value \<open>- 5\<close>, which is
  \<^verbatim>\<open>'+' - '0'\<close>.
\<close>

theorem parseExpression_digit_out_of_range:
  "DIGIT \<noteq> 0 \<Longrightarrow>
   parseExpression DIGIT EoF (getNextToken DIGIT EoF (startup ''+'')) =
     Inr (Some (D (- 5)), \<lparr>token = \<lparr>classType = EoF, repr = CHR ''#''\<rparr>, stdin = []\<rparr>)"
  by (simp add: parseExpression_assign getNextToken_startup_Cons getNextToken_Nil
        isWhitespace_def)

theorem parseExpression_digit_out_of_range_witness:
  "(257::int) \<noteq> 0 \<and>
   parseExpression 257 256 (getNextToken 257 256 (startup ''+'')) =
     Inr (Some (D (- 5)), \<lparr>token = \<lparr>classType = 256, repr = CHR ''#''\<rparr>, stdin = []\<rparr>)"
  using parseExpression_digit_out_of_range [of 257 256] by simp

text \<open>
  Claim C9. The lexer is deterministic and has no hidden state: the sequence of tokens
  that any number of calls of \<^verbatim>\<open>getNextToken\<close> produces is the same for two runs
  that start on the same input, whatever the token slot held before.
\<close>

theorem lex_run_stream_only:
  "stdin st1 = stdin st2 \<Longrightarrow> lex_run DIGIT EoF n st1 = lex_run DIGIT EoF n st2"
proof (induction n arbitrary: st1 st2)
  case 0
  show ?case by simp
next
  case (Suc n)
  have tok: "token (getNextToken DIGIT EoF st1) = token (getNextToken DIGIT EoF st2)"
    and inp: "stdin (getNextToken DIGIT EoF st1) = stdin (getNextToken DIGIT EoF st2)"
    using getNextToken_same_stdin [OF Suc.prems] by simp_all
  from Suc.IH [OF inp] tok show ?case by (simp add: Let_def)
qed

theorem lex_run_stream_only_witness:
  "stdin \<lparr>token = \<lparr>classType = 0, repr = CHR 0x00\<rparr>, stdin = ''(1 +''\<rparr> =
     stdin \<lparr>token = \<lparr>classType = 43, repr = CHR ''+''\<rparr>, stdin = ''(1 +''\<rparr> \<and>
   lex_run 257 256 4 \<lparr>token = \<lparr>classType = 0, repr = CHR 0x00\<rparr>, stdin = ''(1 +''\<rparr> =
     lex_run 257 256 4 \<lparr>token = \<lparr>classType = 43, repr = CHR ''+''\<rparr>, stdin = ''(1 +''\<rparr> \<and>
   lex_run 257 256 4 \<lparr>token = \<lparr>classType = 43, repr = CHR ''+''\<rparr>, stdin = ''(1 +''\<rparr> =
     [\<lparr>classType = 40, repr = CHR ''(''\<rparr>, \<lparr>classType = 257, repr = CHR ''1''\<rparr>,
      \<lparr>classType = 43, repr = CHR ''+''\<rparr>, \<lparr>classType = 256, repr = CHR ''#''\<rparr>]"
  using lex_run_stream_only [of "\<lparr>token = \<lparr>classType = 0, repr = CHR 0x00\<rparr>, stdin = ''(1 +''\<rparr>"
      "\<lparr>token = \<lparr>classType = 43, repr = CHR ''+''\<rparr>, stdin = ''(1 +''\<rparr>" 257 256 4]
  by (simp add: eval_nat_numeral getNextToken_Cons getNextToken_Nil isWhitespace_def Let_def)

text \<open>
  Claim C10. End of input is absorbing: once a call of \<^verbatim>\<open>getNextToken\<close> has left
  a token of class \<open>EoF\<close>, that token is \<open>EoF\<close> with \<^verbatim>\<open>'#'\<close>, and any number
  of further calls leaves the same token and the same input position. \<open>EoF\<close> and
  \<open>DIGIT\<close> are constants of the absent \<^verbatim>\<open>lex.hpp\<close>: the class \<open>EoF\<close> is taken
  to differ from \<open>DIGIT\<close> and from every character code (0 to 255), as the tags
  of the specification do.
\<close>

theorem EoF_absorbing:
  assumes "EoF \<noteq> DIGIT" and "EoF < 0 \<or> 255 < EoF"
    and "classType (token (getNextToken DIGIT EoF st)) = EoF"
  shows "token (getNextToken DIGIT EoF st) = \<lparr>classType = EoF, repr = CHR ''#''\<rparr> \<and>
         (getNextToken DIGIT EoF ^^ n) (getNextToken DIGIT EoF st) = getNextToken DIGIT EoF st"
proof -
  let ?s = "getNextToken DIGIT EoF st"
  have s: "?s = st\<lparr>token := \<lparr>classType = EoF, repr = CHR ''#''\<rparr>, stdin := []\<rparr>"
    using assms by (rule getNextToken_EoF_exhausted)
  have "getNextToken DIGIT EoF ?s = ?s"
    by (subst (2) s, subst s) (simp add: getNextToken_Nil)
  then have "(getNextToken DIGIT EoF ^^ n) ?s = ?s"
    by (rule funpow_fixed)
  moreover have "token ?s = \<lparr>classType = EoF, repr = CHR ''#''\<rparr>"
    by (subst s) simp
  ultimately show ?thesis by simp
qed

theorem EoF_absorbing_witness:
  "(256::int) \<noteq> 257 \<and> ((256::int) < 0 \<or> (255::int) < 256) \<and>
   classType (token (getNextToken 257 256 (startup ''  ''))) = 256 \<and>
   token (getNextToken 257 256 (startup ''  '')) = \<lparr>classType = 256, repr = CHR ''#''\<rparr> \<and>
   (getNextToken 257 256 ^^ 3) (getNextToken 257 256 (startup ''  '')) =
     getNextToken 257 256 (startup ''  '')"
proof -
  have c: "classType (token (getNextToken 257 256 (startup ''  ''))) = 256"
    by (simp add: startup_def getNextToken_Cons getNextToken_Nil isWhitespace_def)
  from EoF_absorbing [of 256 257 "startup ''  ''" 3] c show ?thesis by simp
qed

end
